theory Spec2Isabelle
  imports Complex_Main "HOL-Library.Multiset"
begin

section \<open>Python values, dictionaries and exceptions\<close>

text \<open>
  The handlers of \<^verbatim>\<open>app.py\<close> work on values decoded from JSON: rows returned by the
  record store and request payloads. A value is \<^verbatim>\<open>None\<close>, a bool, an int, a string, a
  list or a dict with string keys. Python ints are unbounded, hence \<open>int\<close>. Python
  floats are not part of this model: every number is an int, and the one quotient the
  code forms (the average price) is an exact rational.
  A dict is an association list in insertion order; a key occurs once in a Python dict.
\<close>

datatype pyval =
    PyNone
  | PyBool bool
  | PyInt int
  | PyStr string
  | PyList "pyval list"
  | PyDict "(string \<times> pyval) list"

type_synonym pydict = "(string \<times> pyval) list"

text \<open>A row of the \<^verbatim>\<open>dogs\<close> table as the client library returns it.\<close>

type_synonym dog = pydict

text \<open>
  The exceptions the handlers can meet. \<open>TypeError\<close> and \<open>AttributeError\<close> come from the
  interpreter, \<open>PyException\<close> is a plain \<^verbatim>\<open>Exception(msg)\<close> (also what the store client
  raises, with a message of its own).
\<close>

datatype py_error =
    TypeError string
  | AttributeError string
  | PyException string

text \<open>\<^verbatim>\<open>str(e)\<close>\<close>

fun str_of_error :: "py_error \<Rightarrow> string" where
  "str_of_error (TypeError m) = m"
| "str_of_error (AttributeError m) = m"
| "str_of_error (PyException m) = m"

text \<open>\<^verbatim>\<open>type(v).__name__\<close>\<close>

fun type_name :: "pyval \<Rightarrow> string" where
  "type_name PyNone = ''NoneType''"
| "type_name (PyBool _) = ''bool''"
| "type_name (PyInt _) = ''int''"
| "type_name (PyStr _) = ''str''"
| "type_name (PyList _) = ''list''"
| "type_name (PyDict _) = ''dict''"

text \<open>A name between single quotes, as the interpreter's messages print a type.\<close>

definition quoted :: "string \<Rightarrow> string" where
  "quoted s = CHR 0x27 # s @ [CHR 0x27]"

text \<open>\<^verbatim>\<open>d.get(k)\<close> and \<^verbatim>\<open>d.get(k, default)\<close>: the default only replaces an absent key.\<close>

definition dict_get_default :: "pydict \<Rightarrow> string \<Rightarrow> pyval \<Rightarrow> pyval" where
  "dict_get_default d k dflt = (case map_of d k of None \<Rightarrow> dflt | Some v \<Rightarrow> v)"

definition dict_get :: "pydict \<Rightarrow> string \<Rightarrow> pyval" where
  "dict_get d k = dict_get_default d k PyNone"

text \<open>
  \<^verbatim>\<open>v.get(k)\<close> on a decoded payload: only a dict has the method; on any other value the
  attribute lookup raises.
\<close>

fun py_get :: "pyval \<Rightarrow> string \<Rightarrow> py_error + pyval" where
  "py_get (PyDict d) k = Inr (dict_get d k)"
| "py_get v k =
     Inl (AttributeError (quoted (type_name v) @ '' object has no attribute '' @ quoted ''get''))"

text \<open>Truth value of a Python object, as \<^verbatim>\<open>not x\<close> and \<^verbatim>\<open>all([...])\<close> test it.\<close>

fun truthy :: "pyval \<Rightarrow> bool" where
  "truthy PyNone = False"
| "truthy (PyBool b) = b"
| "truthy (PyInt i) = (i \<noteq> 0)"
| "truthy (PyStr s) = (s \<noteq> [])"
| "truthy (PyList xs) = (xs \<noteq> [])"
| "truthy (PyDict d) = (d \<noteq> [])"

text \<open>Lists and dicts cannot be dict keys: hashing them raises \<^verbatim>\<open>TypeError\<close>.\<close>

fun hashable :: "pyval \<Rightarrow> bool" where
  "hashable (PyList _) = False"
| "hashable (PyDict _) = False"
| "hashable _ = True"

text \<open>
  Equality of two dict keys. \<^verbatim>\<open>bool\<close> is a subclass of \<^verbatim>\<open>int\<close>: \<^verbatim>\<open>True == 1\<close> and
  \<^verbatim>\<open>False == 0\<close>, with equal hashes, so they are the same key. Only hashable values
  ever reach a comparison.
\<close>

fun key_eq :: "pyval \<Rightarrow> pyval \<Rightarrow> bool" where
  "key_eq (PyBool a) (PyInt i) = (i = (if a then 1 else 0))"
| "key_eq (PyInt i) (PyBool a) = (i = (if a then 1 else 0))"
| "key_eq a b = (a = b)"


section \<open>The statistics aggregator of \<^verbatim>\<open>dashboard\<close>\<close>

text \<open>
  \<^verbatim>\<open>
  if breed in breeds: breeds[breed] += 1
  else:               breeds[breed] = 1
  \<close>
  An existing key keeps its place and its first spelling; a new key goes to the end.
\<close>

fun breeds_add :: "(pyval \<times> nat) list \<Rightarrow> pyval \<Rightarrow> (pyval \<times> nat) list" where
  "breeds_add [] breed = [(breed, 1)]"
| "breeds_add ((k, c) # bs) breed =
     (if key_eq k breed then (k, c + 1) # bs else (k, c) # breeds_add bs breed)"



text \<open>
  \<^verbatim>\<open>total_value += price\<close> with an int on the left: ints add, a bool counts as 0 or 1,
  anything else raises.
\<close>

fun iadd :: "int \<Rightarrow> pyval \<Rightarrow> py_error + int" where
  "iadd t (PyInt i) = Inr (t + i)"
| "iadd t (PyBool b) = Inr (t + (if b then 1 else 0))"
| "iadd t v =
     Inl (TypeError (''unsupported operand type(s) for +=: 'int' and '' @ quoted (type_name v)))"

text \<open>
  The \<^verbatim>\<open>for dog in dogs\<close> loop, with the two accumulators \<^verbatim>\<open>breeds\<close> and
  \<^verbatim>\<open>total_value\<close>. The membership test hashes the breed first.
\<close>

fun stats_loop ::
  "dog list \<Rightarrow> (pyval \<times> nat) list \<Rightarrow> int \<Rightarrow> py_error + ((pyval \<times> nat) list \<times> int)" where
  "stats_loop [] breeds total_value = Inr (breeds, total_value)"
| "stats_loop (dog # dogs) breeds total_value =
     (let breed = dict_get dog ''breed'' in
      if \<not> hashable breed
      then Inl (TypeError (''unhashable type: '' @ quoted (type_name breed)))
      else
        (case iadd total_value (dict_get_default dog ''price'' (PyInt 0)) of
           Inl e \<Rightarrow> Inl e
         | Inr total_value' \<Rightarrow> stats_loop dogs (breeds_add breeds breed) total_value'))"

record stats =
  total_dogs :: nat
  unique_breeds :: nat
  breed_distribution :: "(pyval \<times> nat) list"
  total_inventory_value :: int
  average_price :: rat

text \<open>The body of the \<^verbatim>\<open>try\<close> once the rows are fetched: both branches of \<^verbatim>\<open>if not dogs\<close>.\<close>

definition dashboard_stats :: "dog list \<Rightarrow> py_error + stats" where
  "dashboard_stats dogs =
     (if dogs = []
      then Inr \<lparr>total_dogs = 0, unique_breeds = 0, breed_distribution = [],
                total_inventory_value = 0, average_price = 0\<rparr>
      else
        (case stats_loop dogs [] 0 of
           Inl e \<Rightarrow> Inl e
         | Inr (breeds, total_value) \<Rightarrow>
             Inr \<lparr>total_dogs = length dogs,
                  unique_breeds = length breeds,
                  breed_distribution = breeds,
                  total_inventory_value = total_value,
                  average_price =
                    (if dogs \<noteq> [] then of_int total_value / of_nat (length dogs) else 0)\<rparr>))"


definition price_of :: "dog \<Rightarrow> pyval" where
  "price_of dog = dict_get_default dog ''price'' (PyInt 0)"


fun int_value :: "pyval \<Rightarrow> int" where
  "int_value (PyInt i) = i"
| "int_value (PyBool b) = (if b then 1 else 0)"
| "int_value _ = 0"


text \<open>The three rows of the specification's dashboard scenario; the third has a null price.\<close>

definition scenario_dogs :: "dog list" where
  "scenario_dogs =
     [[(''id'', PyInt 1), (''breed'', PyStr ''Lab''), (''price'', PyInt 100)],
      [(''id'', PyInt 2), (''breed'', PyStr ''Lab''), (''price'', PyInt 200)],
      [(''id'', PyInt 3), (''breed'', PyStr ''Poodle''), (''price'', PyNone)]]"

section \<open>Responses\<close>

text \<open>
  What a handler hands to \<^verbatim>\<open>jsonify\<close>, one constructor for each shape of body the
  source builds, paired with the status code as in \<^verbatim>\<open>return jsonify(...), 200\<close>.
  Serialising the body is the framework's work and is not modelled.
\<close>

datatype body =
    ErrorBody string
  | DashboardBody "dog list" stats
  | DogsBody int "dog list"
  | LoginBody string string
  | MessageBody string "dog list"

type_synonym response = "body \<times> nat"

section \<open>Queries sent to the record store\<close>

text \<open>
  The client library builds a request step by step
  (\<^verbatim>\<open>select("*")\<close>, \<^verbatim>\<open>in_\<close>, \<^verbatim>\<open>gte\<close>, \<^verbatim>\<open>lte\<close>, \<^verbatim>\<open>order\<close>, \<^verbatim>\<open>range\<close>) and sends it with
  \<^verbatim>\<open>execute()\<close>. The request is data here; each builder call adds to it (\<open>q_in\<close> for
  \<^verbatim>\<open>in_\<close>, and so on). The price bounds are exact rationals.
\<close>

datatype filter_op =
    FIn string "string list"
  | FGte string rat
  | FLte string rat

record query =
  filters :: "filter_op list"
  order_col :: "string option"
  row_range :: "(int \<times> int) option"

definition select_all :: query where
  "select_all = \<lparr>filters = [], order_col = None, row_range = None\<rparr>"

definition q_in :: "string \<Rightarrow> string list \<Rightarrow> query \<Rightarrow> query" where
  "q_in col vals q = q\<lparr>filters := filters q @ [FIn col vals]\<rparr>"

definition q_gte :: "string \<Rightarrow> rat \<Rightarrow> query \<Rightarrow> query" where
  "q_gte col v q = q\<lparr>filters := filters q @ [FGte col v]\<rparr>"

definition q_lte :: "string \<Rightarrow> rat \<Rightarrow> query \<Rightarrow> query" where
  "q_lte col v q = q\<lparr>filters := filters q @ [FLte col v]\<rparr>"

definition q_order :: "string \<Rightarrow> query \<Rightarrow> query" where
  "q_order col q = q\<lparr>order_col := Some col\<rparr>"

definition q_range :: "int \<Rightarrow> int \<Rightarrow> query \<Rightarrow> query" where
  "q_range lo hi q = q\<lparr>row_range := Some (lo, hi)\<rparr>"

text \<open>
  The writes of the \<^verbatim>\<open>/admin\<close> endpoint:
  \<^verbatim>\<open>insert(record)\<close>, \<^verbatim>\<open>update(fields).eq("id", id)\<close>, \<^verbatim>\<open>delete().eq("id", id)\<close>.
\<close>

datatype store_write =
    Insert dog
  | Update dog pyval
  | Delete pyval

section \<open>\<^verbatim>\<open>dashboard\<close> and \<^verbatim>\<open>get_dogs\<close>\<close>

text \<open>
  A handler takes \<open>execute\<close>, the store's answer to a request: rows, or the exception the
  client raises. Every exception inside the \<^verbatim>\<open>try\<close> becomes a 500 with its message.
\<close>

definition dashboard :: "(query \<Rightarrow> py_error + dog list) \<Rightarrow> response" where
  "dashboard execute =
     (case execute select_all of
        Inl e \<Rightarrow> (ErrorBody (str_of_error e), 500)
      | Inr dogs \<Rightarrow>
          (case dashboard_stats dogs of
             Inl e \<Rightarrow> (ErrorBody (str_of_error e), 500)
           | Inr stats \<Rightarrow> (DashboardBody dogs stats, 200)))"

text \<open>
  The query arguments after the framework's coercion: \<open>arg_page\<close> is \<open>None\<close> when the
  argument is absent or not an integer (the default 1 then applies), \<open>arg_breed\<close> holds
  every \<^verbatim>\<open>breed\<close> argument, the two bounds are \<open>None\<close> when absent or not numeric.
\<close>

record dogs_args =
  arg_page :: "int option"
  arg_breed :: "string list"
  arg_min_price :: "rat option"
  arg_max_price :: "rat option"

definition get_dogs :: "(query \<Rightarrow> py_error + dog list) \<Rightarrow> dogs_args \<Rightarrow> response" where
  "get_dogs execute args =
     (let page = (case arg_page args of None \<Rightarrow> 1 | Some p \<Rightarrow> p);
          page_size = 20;
          offset = (page - 1) * page_size;
          breeds = arg_breed args;
          min_price = arg_min_price args;
          max_price = arg_max_price args;
          query = select_all;
          query = (if breeds \<noteq> [] then q_in ''breed'' breeds query else query);
          query = (case min_price of None \<Rightarrow> query | Some m \<Rightarrow> q_gte ''price'' m query);
          query = (case max_price of None \<Rightarrow> query | Some m \<Rightarrow> q_lte ''price'' m query)
      in
        (case execute (q_range offset (offset + page_size - 1) (q_order ''id'' query)) of
           Inl e \<Rightarrow> (ErrorBody (str_of_error e), 500)
         | Inr dogs \<Rightarrow> (DogsBody page dogs, 200)))"

section \<open>The record store\<close>

text \<open>
  Modelled from the spec: the record store is an external service, so what it answers to
  a select request is taken from the specification's data model and query contract. A
  stored record has a unique integer \<open>id\<close> and four attributes that may be null; the
  price is an integer here.
\<close>

record stored_dog =
  sd_id :: int
  sd_name :: "string option"
  sd_image :: "string option"
  sd_breed :: "string option"
  sd_price :: "int option"

text \<open>Modelled from the spec: the row handed to the client, a null attribute as \<^verbatim>\<open>None\<close>.\<close>

definition row_json :: "stored_dog \<Rightarrow> dog" where
  "row_json r =
     [(''id'', PyInt (sd_id r)),
      (''name'', (case sd_name r of None \<Rightarrow> PyNone | Some s \<Rightarrow> PyStr s)),
      (''image'', (case sd_image r of None \<Rightarrow> PyNone | Some s \<Rightarrow> PyStr s)),
      (''breed'', (case sd_breed r of None \<Rightarrow> PyNone | Some s \<Rightarrow> PyStr s)),
      (''price'', (case sd_price r of None \<Rightarrow> PyNone | Some p \<Rightarrow> PyInt p))]"

text \<open>
  Modelled from the spec: the filters the contract names are membership of \<open>breed\<close> in a
  set and the two bounds on \<open>price\<close>; a filter on anything else is refused. A null
  attribute satisfies no filter.
\<close>

fun supported :: "filter_op \<Rightarrow> bool" where
  "supported (FIn col vals) = (col = ''breed'')"
| "supported (FGte col v) = (col = ''price'')"
| "supported (FLte col v) = (col = ''price'')"

fun satisfies :: "stored_dog \<Rightarrow> filter_op \<Rightarrow> bool" where
  "satisfies r (FIn col vals) = (case sd_breed r of None \<Rightarrow> False | Some b \<Rightarrow> b \<in> set vals)"
| "satisfies r (FGte col v) = (case sd_price r of None \<Rightarrow> False | Some p \<Rightarrow> v \<le> of_int p)"
| "satisfies r (FLte col v) = (case sd_price r of None \<Rightarrow> False | Some p \<Rightarrow> of_int p \<le> v)"

text \<open>
  Modelled from the spec: \<open>select(filters, order, range)\<close>. The records satisfying every
  filter are put in ascending order of \<open>id\<close> when an order is asked for (the only order
  column of the contract), and the range keeps the positions \<open>lo\<close> to \<open>hi\<close>, both
  included, that exist. A range starting below 0 is refused, which the specification
  leaves open.
\<close>

definition store_select :: "stored_dog list \<Rightarrow> query \<Rightarrow> py_error + dog list" where
  "store_select rows q =
     (if \<not> list_all supported (filters q) then Inl (PyException ''unknown column'')
      else if order_col q \<noteq> None \<and> order_col q \<noteq> Some ''id''
      then Inl (PyException ''unknown column'')
      else
        (let hits = filter (\<lambda>r. list_all (satisfies r) (filters q)) rows;
             ordered = (if order_col q = None then hits else sort_key sd_id hits)
         in
           (case row_range q of
              None \<Rightarrow> Inr (map row_json ordered)
            | Some (lo, hi) \<Rightarrow>
                if lo < 0 then Inl (PyException ''range out of bounds'')
                else Inr (map (\<lambda>i. row_json (ordered ! i))
                           [nat lo ..< min (nat (hi + 1)) (length ordered)]))))"

text \<open>
  The records a request for \<open>args\<close> asks for, in the words of the contract: breed in the
  given set when the set is not empty, price at least \<open>min_price\<close> and at most
  \<open>max_price\<close> when given.
\<close>

definition wanted :: "dogs_args \<Rightarrow> stored_dog \<Rightarrow> bool" where
  "wanted args r \<longleftrightarrow>
     (arg_breed args = [] \<or> (case sd_breed r of None \<Rightarrow> False | Some b \<Rightarrow> b \<in> set (arg_breed args))) \<and>
     (case arg_min_price args of None \<Rightarrow> True
      | Some m \<Rightarrow> (case sd_price r of None \<Rightarrow> False | Some p \<Rightarrow> m \<le> of_int p)) \<and>
     (case arg_max_price args of None \<Rightarrow> True
      | Some m \<Rightarrow> (case sd_price r of None \<Rightarrow> False | Some p \<Rightarrow> of_int p \<le> m))"

text \<open>The page a request asks for, and the wanted records in ascending order of \<open>id\<close>.\<close>

definition requested_page :: "dogs_args \<Rightarrow> int" where
  "requested_page args = (case arg_page args of None \<Rightarrow> 1 | Some p \<Rightarrow> p)"

definition wanted_in_order :: "dogs_args \<Rightarrow> stored_dog list \<Rightarrow> stored_dog list" where
  "wanted_in_order args rows = sort_key sd_id (filter (wanted args) rows)"

section \<open>\<^verbatim>\<open>admin_login\<close>\<close>

text \<open>\<^verbatim>\<open>os.environ.get(name, default)\<close>\<close>

definition environ_get :: "(string \<rightharpoonup> string) \<Rightarrow> string \<Rightarrow> string \<Rightarrow> string" where
  "environ_get environ name dflt = (case environ name of None \<Rightarrow> dflt | Some v \<Rightarrow> v)"

text \<open>
  The handler has no \<^verbatim>\<open>try\<close>: an exception leaves it (\<open>Inl\<close>). \<open>data\<close> is the decoded
  payload; a supplied value equals a configured string only if it is that string.
\<close>

definition admin_login :: "(string \<rightharpoonup> string) \<Rightarrow> pyval \<Rightarrow> py_error + response" where
  "admin_login environ data =
     (case py_get data ''username'' of
        Inl e \<Rightarrow> Inl e
      | Inr username \<Rightarrow>
          (case py_get data ''password'' of
             Inl e \<Rightarrow> Inl e
           | Inr password \<Rightarrow>
               (let admin_username = environ_get environ ''ADMIN_USERNAME'' ''admin'';
                    admin_password = environ_get environ ''ADMIN_PASSWORD'' ''password''
                in
                  if username = PyStr admin_username \<and> password = PyStr admin_password
                  then Inr (LoginBody (environ_get environ ''ADMIN_TOKEN'' ''dummy_admin_token'')
                                      ''Login successful'', 200)
                  else Inr (ErrorBody ''Invalid credentials'', 403))))"

section \<open>\<^verbatim>\<open>add_dogs\<close> and \<^verbatim>\<open>admin_dogs\<close>\<close>

text \<open>
  A request to \<^verbatim>\<open>/admin\<close>: the route accepts three methods. \<open>req_json\<close> is the value of
  \<^verbatim>\<open>request.json\<close>, the decoded body or the exception raised while decoding it, and
  \<open>req_args\<close> the query string.
\<close>

datatype http_method = POST | DELETE | PUT

record request =
  req_method :: http_method
  req_is_json :: bool
  req_json :: "py_error + pyval"
  req_args :: "(string \<times> string) list"

text \<open>
  The handlers that write return the calls they made to the store, in order, beside
  their result. \<open>execute\<close> is the store's answer to a write.
\<close>

definition add_dogs ::
  "(store_write \<Rightarrow> py_error + dog list) \<Rightarrow> pyval \<Rightarrow> pyval \<Rightarrow> pyval \<Rightarrow> pyval \<Rightarrow>
   store_write list \<times> (py_error + dog list)" where
  "add_dogs execute name image' breed price =
     (let call = Insert [(''name'', name), (''image'', image'), (''breed'', breed), (''price'', price)]
      in
        (case execute call of
           Inl e \<Rightarrow> ([call], Inl (PyException (''Error adding dog: '' @ str_of_error e)))
         | Inr data \<Rightarrow> ([call], Inr data)))"

text \<open>The keys \<^verbatim>\<open>PUT\<close> keeps: \<^verbatim>\<open>['name', 'image', 'breed', 'price']\<close>.\<close>

definition update_fields :: "string list" where
  "update_fields = [''name'', ''image'', ''breed'', ''price'']"

text \<open>The three branches of \<^verbatim>\<open>admin_dogs\<close>, before the \<^verbatim>\<open>except\<close> clause.\<close>

definition admin_delete ::
  "(store_write \<Rightarrow> py_error + dog list) \<Rightarrow> request \<Rightarrow> store_write list \<times> (py_error + response)" where
  "admin_delete execute req =
     (case (if req_is_json req
            then (case req_json req of Inl e \<Rightarrow> Inl e | Inr json \<Rightarrow> py_get json ''id'')
            else Inr (case map_of (req_args req) ''id'' of None \<Rightarrow> PyNone | Some s \<Rightarrow> PyStr s)) of
        Inl e \<Rightarrow> ([], Inl e)
      | Inr dog_id \<Rightarrow>
          if \<not> truthy dog_id then ([], Inr (ErrorBody ''Missing dog id'', 400))
          else
            (case execute (Delete dog_id) of
               Inl e \<Rightarrow> ([Delete dog_id], Inl e)
             | Inr data \<Rightarrow> ([Delete dog_id], Inr (MessageBody ''Dog deleted'' data, 200))))"

definition admin_post ::
  "(store_write \<Rightarrow> py_error + dog list) \<Rightarrow> request \<Rightarrow> store_write list \<times> (py_error + response)" where
  "admin_post execute req =
     (if \<not> req_is_json req then ([], Inr (ErrorBody ''Request must be JSON'', 400))
      else
        (case req_json req of
           Inl e \<Rightarrow> ([], Inl e)
         | Inr data \<Rightarrow>
             (case py_get data ''name'' of Inl e \<Rightarrow> ([], Inl e) | Inr name \<Rightarrow>
             (case py_get data ''image'' of Inl e \<Rightarrow> ([], Inl e) | Inr image' \<Rightarrow>
             (case py_get data ''breed'' of Inl e \<Rightarrow> ([], Inl e) | Inr breed \<Rightarrow>
             (case py_get data ''price'' of Inl e \<Rightarrow> ([], Inl e) | Inr price \<Rightarrow>
                if \<not> list_all truthy [name, image', breed, price]
                then ([], Inr (ErrorBody ''Missing required fields'', 400))
                else
                  (case add_dogs execute name image' breed price of
                     (calls, Inl e) \<Rightarrow> (calls, Inl e)
                   | (calls, Inr result) \<Rightarrow>
                       (calls, Inr (MessageBody ''Dog added successfully'' result, 200)))))))))"

definition admin_put ::
  "(store_write \<Rightarrow> py_error + dog list) \<Rightarrow> request \<Rightarrow> store_write list \<times> (py_error + response)" where
  "admin_put execute req =
     (if \<not> req_is_json req then ([], Inr (ErrorBody ''Request must be JSON'', 400))
      else
        (case req_json req of
           Inl e \<Rightarrow> ([], Inl e)
         | Inr json \<Rightarrow>
             (case py_get json ''id'' of
                Inl e \<Rightarrow> ([], Inl e)
              | Inr dog_id \<Rightarrow>
                  if \<not> truthy dog_id then ([], Inr (ErrorBody ''Missing dog id'', 400))
                  else
                    (case json of
                       PyDict items \<Rightarrow>
                         (let update_data = filter (\<lambda>(k, v). k \<in> set update_fields) items in
                          if update_data = []
                          then ([], Inr (ErrorBody ''No valid fields to update'', 400))
                          else
                            (case execute (Update update_data dog_id) of
                               Inl e \<Rightarrow> ([Update update_data dog_id], Inl e)
                             | Inr data \<Rightarrow>
                                 ([Update update_data dog_id],
                                  Inr (MessageBody ''Dog updated'' data, 200))))
                     | _ \<Rightarrow>
                         ([], Inl (AttributeError
                                (quoted (type_name json) @ '' object has no attribute '' @
                                 quoted ''items'')))))))"

text \<open>\<^verbatim>\<open>admin_dogs\<close>: the branch of the method, and \<^verbatim>\<open>except Exception\<close> around it.\<close>

definition admin_dogs ::
  "(store_write \<Rightarrow> py_error + dog list) \<Rightarrow> request \<Rightarrow> store_write list \<times> response" where
  "admin_dogs execute req =
     (case (case req_method req of
              DELETE \<Rightarrow> admin_delete execute req
            | POST \<Rightarrow> admin_post execute req
            | PUT \<Rightarrow> admin_put execute req) of
        (calls, Inl e) \<Rightarrow> (calls, (ErrorBody (str_of_error e), 500))
      | (calls, Inr resp) \<Rightarrow> (calls, resp))"

section \<open>Properties of the aggregator\<close>

subsection \<open>The loop and its two accumulators\<close>























subsection \<open>The statistics in closed form\<close>



lemma price_of_missing: "map_of d ''price'' = None \<Longrightarrow> int_value (price_of d) = 0"
  by (simp add: price_of_def dict_get_default_def)



subsection \<open>The claims about the statistics\<close>

text \<open>
  Claim C1. The total inventory value is the sum of the prices, a missing or null price
  counting as 0, and the scenario with a null price gives 300 without an error.
  The code does not do this: the default of \<^verbatim>\<open>dog.get('price', 0)\<close> replaces an absent key
  only, so the null price of the third row reaches the addition, which raises, and the
  handler answers 500.
\<close>

theorem dashboard_scenario_null_price:
  "dashboard_stats scenario_dogs =
     Inl (TypeError (''unsupported operand type(s) for +=: 'int' and '' @ quoted ''NoneType''))
   \<and> dashboard (\<lambda>q. Inr scenario_dogs) =
     (ErrorBody (''unsupported operand type(s) for +=: 'int' and '' @ quoted ''NoneType''), 500)"
  by (simp add: dashboard_def dashboard_stats_def scenario_dogs_def dict_get_def
        dict_get_default_def)

text \<open>With the key absent instead of null, the same scenario gives the expected statistics.\<close>

lemma dashboard_scenario_missing_price:
  "dashboard_stats
     [[(''id'', PyInt 1), (''breed'', PyStr ''Lab''), (''price'', PyInt 100)],
      [(''id'', PyInt 2), (''breed'', PyStr ''Lab''), (''price'', PyInt 200)],
      [(''id'', PyInt 3), (''breed'', PyStr ''Poodle'')]] =
   Inr \<lparr>total_dogs = 3, unique_breeds = 2,
        breed_distribution = [(PyStr ''Lab'', 2), (PyStr ''Poodle'', 1)],
        total_inventory_value = 300, average_price = 100\<rparr>"
  by (simp add: dashboard_stats_def dict_get_def dict_get_default_def)

text \<open>
  Claim C2. For an empty record sequence every numeric statistic is 0 and the breed
  distribution is the empty mapping. This is the first branch of \<open>dashboard_stats\<close>:
  the proof unfolds neither \<open>stats_loop\<close> nor the quotient.
\<close>

theorem dashboard_stats_empty:
  "dashboard_stats [] =
     Inr \<lparr>total_dogs = 0, unique_breeds = 0, breed_distribution = [],
          total_inventory_value = 0, average_price = 0\<rparr>
   \<and> (execute select_all = Inr [] \<longrightarrow>
        dashboard execute =
          (DashboardBody []
             \<lparr>total_dogs = 0, unique_breeds = 0, breed_distribution = [],
              total_inventory_value = 0, average_price = 0\<rparr>, 200))"
  by (simp add: dashboard_def dashboard_stats_def)

theorem dashboard_stats_empty_witness:
  "(\<lambda>q. Inr []) select_all = (Inr [] :: py_error + dog list)
   \<and> dashboard (\<lambda>q. Inr []) =
       (DashboardBody []
          \<lparr>total_dogs = 0, unique_breeds = 0, breed_distribution = [],
           total_inventory_value = 0, average_price = 0\<rparr>, 200)"
  using dashboard_stats_empty [of "\<lambda>q. Inr []"] by simp








section \<open>Properties of the paginated query\<close>

subsection \<open>The request \<open>get_dogs\<close> builds and the store's answer\<close>

lemma window_take_drop:
  "map (\<lambda>i. f (xs ! i)) [lo ..< min h (length xs)] = map f (take (h - lo) (drop lo xs))"
proof (rule nth_equalityI)
  show "length (map (\<lambda>i. f (xs ! i)) [lo ..< min h (length xs)])
          = length (map f (take (h - lo) (drop lo xs)))"
    by auto
next
  fix i assume "i < length (map (\<lambda>i. f (xs ! i)) [lo ..< min h (length xs)])"
  then have il: "i < length [lo ..< min h (length xs)]" by simp
  then have i: "lo + i < min h (length xs)" by (simp add: less_diff_conv add.commute)
  then have "i < h - lo" and "lo + i < length xs" by linarith+
  then have r: "map f (take (h - lo) (drop lo xs)) ! i = f (xs ! (lo + i))" by simp
  have "map (\<lambda>i. f (xs ! i)) [lo ..< min h (length xs)] ! i
          = f (xs ! ([lo ..< min h (length xs)] ! i))"
    using il by (rule nth_map)
  also have "[lo ..< min h (length xs)] ! i = lo + i" using i by (rule nth_upt)
  finally show "map (\<lambda>i. f (xs ! i)) [lo ..< min h (length xs)] ! i
                  = map f (take (h - lo) (drop lo xs)) ! i"
    using r by simp
qed

lemma store_select_window:
  assumes "list_all supported fs" and "0 \<le> lo"
  shows "store_select rows \<lparr>filters = fs, order_col = Some ''id'', row_range = Some (lo, hi)\<rparr> =
           Inr (map row_json
                  (take (nat (hi + 1) - nat lo)
                     (drop (nat lo)
                        (sort_key sd_id (filter (\<lambda>r. list_all (satisfies r) fs) rows)))))"
  using assms by (simp add: store_select_def Let_def window_take_drop)

lemma built_filters_supported:
  "list_all supported
     ((if breeds \<noteq> [] then [FIn ''breed'' breeds] else []) @
      (case lo of None \<Rightarrow> [] | Some m \<Rightarrow> [FGte ''price'' m]) @
      (case hi of None \<Rightarrow> [] | Some m \<Rightarrow> [FLte ''price'' m]))"
  by (simp split: option.splits)

lemma built_filters_wanted:
  "list_all (satisfies r)
     ((if arg_breed args \<noteq> [] then [FIn ''breed'' (arg_breed args)] else []) @
      (case arg_min_price args of None \<Rightarrow> [] | Some m \<Rightarrow> [FGte ''price'' m]) @
      (case arg_max_price args of None \<Rightarrow> [] | Some m \<Rightarrow> [FLte ''price'' m]))
   \<longleftrightarrow> wanted args r"
  by (simp add: wanted_def split: option.splits)

lemma get_dogs_query:
  "get_dogs execute args =
     (case execute
        \<lparr>filters =
           (if arg_breed args \<noteq> [] then [FIn ''breed'' (arg_breed args)] else []) @
           (case arg_min_price args of None \<Rightarrow> [] | Some m \<Rightarrow> [FGte ''price'' m]) @
           (case arg_max_price args of None \<Rightarrow> [] | Some m \<Rightarrow> [FLte ''price'' m]),
         order_col = Some ''id'',
         row_range = Some ((requested_page args - 1) * 20, (requested_page args - 1) * 20 + 19)\<rparr> of
        Inl e \<Rightarrow> (ErrorBody (str_of_error e), 500)
      | Inr dogs \<Rightarrow> (DogsBody (requested_page args) dogs, 200))"
  unfolding get_dogs_def requested_page_def Let_def select_all_def q_in_def q_gte_def
    q_lte_def q_order_def q_range_def
  by (simp split: option.splits sum.splits)

lemma get_dogs_store_select:
  assumes "1 \<le> requested_page args"
  shows "get_dogs (store_select rows) args =
     (DogsBody (requested_page args)
        (map row_json (take 20 (drop (nat ((requested_page args - 1) * 20))
                                     (wanted_in_order args rows)))), 200)"
proof -
  let ?off = "(requested_page args - 1) * 20"
  let ?fs = "(if arg_breed args \<noteq> [] then [FIn ''breed'' (arg_breed args)] else []) @
             (case arg_min_price args of None \<Rightarrow> [] | Some m \<Rightarrow> [FGte ''price'' m]) @
             (case arg_max_price args of None \<Rightarrow> [] | Some m \<Rightarrow> [FLte ''price'' m])"
  from assms have off: "0 \<le> ?off" by simp
  then have n: "nat (?off + 19 + 1) - nat ?off = 20" by linarith
  have sup: "list_all supported ?fs" by (rule built_filters_supported)
  have flt: "filter (\<lambda>r. list_all (satisfies r) ?fs) rows = filter (wanted args) rows"
    by (simp only: built_filters_wanted)
  have "store_select rows
          \<lparr>filters = ?fs, order_col = Some ''id'', row_range = Some (?off, ?off + 19)\<rparr>
        = Inr (map row_json (take 20 (drop (nat ?off) (wanted_in_order args rows))))"
    by (simp only: store_select_window [OF sup off] n flt wanted_in_order_def)
  then show ?thesis by (simp only: get_dogs_query sum.case)
qed

subsection \<open>The claims about the paginated query\<close>

text \<open>
  Claim C3. For every page number at least 1 and every store contents, the list the
  paginated query returns has at most 20 records, holds the wanted records at positions
  \<open>(page - 1) * 20\<close> to \<open>(page - 1) * 20 + 19\<close> of their ascending-id ordering, and is empty,
  with status 200, when the offset is beyond the number of wanted records.
\<close>

theorem get_dogs_window:
  assumes "1 \<le> requested_page args"
  shows "\<exists>dogs.
           get_dogs (store_select rows) args = (DogsBody (requested_page args) dogs, 200)
         \<and> length dogs \<le> 20
         \<and> length dogs =
             min 20 (length (wanted_in_order args rows) - nat ((requested_page args - 1) * 20))
         \<and> (\<forall>k < length dogs.
               dogs ! k =
                 row_json (wanted_in_order args rows ! (nat ((requested_page args - 1) * 20) + k)))
         \<and> (length (wanted_in_order args rows) \<le> nat ((requested_page args - 1) * 20)
              \<longrightarrow> dogs = [])
         \<and> sorted (map sd_id (wanted_in_order args rows))
         \<and> mset (wanted_in_order args rows) = filter_mset (wanted args) (mset rows)"
proof -
  let ?off = "nat ((requested_page args - 1) * 20)"
  let ?xs = "wanted_in_order args rows"
  let ?dogs = "map row_json (take 20 (drop ?off ?xs))"
  have "get_dogs (store_select rows) args = (DogsBody (requested_page args) ?dogs, 200)"
    using assms by (rule get_dogs_store_select)
  moreover have "length ?dogs \<le> 20" by simp
  moreover have "length ?dogs = min 20 (length ?xs - ?off)" by simp
  moreover have "\<forall>k < length ?dogs. ?dogs ! k = row_json (?xs ! (?off + k))"
  proof (intro allI impI)
    fix k assume "k < length ?dogs"
    then have k: "k < 20" "k < length ?xs - ?off" by simp_all
    then have "?off \<le> length ?xs" by linarith
    with k show "?dogs ! k = row_json (?xs ! (?off + k))" by simp
  qed
  moreover have "length ?xs \<le> ?off \<longrightarrow> ?dogs = []" by simp
  moreover have "sorted (map sd_id ?xs)" by (simp add: wanted_in_order_def)
  moreover have "mset ?xs = filter_mset (wanted args) (mset rows)"
    by (simp add: wanted_in_order_def)
  ultimately show ?thesis by blast
qed

theorem get_dogs_window_witness:
  "1 \<le> requested_page \<lparr>arg_page = Some 2, arg_breed = [], arg_min_price = Some 50,
                         arg_max_price = None\<rparr>
   \<and> get_dogs
       (store_select
          [\<lparr>sd_id = 2, sd_name = Some ''Rex'', sd_image = None, sd_breed = Some ''Lab'',
            sd_price = Some 100\<rparr>,
           \<lparr>sd_id = 1, sd_name = Some ''Ace'', sd_image = None, sd_breed = None,
            sd_price = Some 10\<rparr>])
       \<lparr>arg_page = Some 2, arg_breed = [], arg_min_price = Some 50, arg_max_price = None\<rparr>
     = (DogsBody 2 [], 200)"
proof -
  let ?args = "\<lparr>arg_page = Some 2, arg_breed = [], arg_min_price = Some 50,
                 arg_max_price = None\<rparr>"
  let ?rows = "[\<lparr>sd_id = 2, sd_name = Some ''Rex'', sd_image = None, sd_breed = Some ''Lab'',
                  sd_price = Some 100\<rparr>,
                \<lparr>sd_id = 1, sd_name = Some ''Ace'', sd_image = None, sd_breed = None,
                  sd_price = Some 10\<rparr>]"
  have p: "requested_page ?args = 2" by (simp add: requested_page_def)
  then have h: "1 \<le> requested_page ?args" by simp
  have "length (wanted_in_order ?args ?rows) \<le> nat ((requested_page ?args - 1) * 20)"
    by (simp add: p wanted_in_order_def wanted_def)
  with get_dogs_window [OF h, of ?rows] h show ?thesis by (auto simp: p)
qed

text \<open>
  Claim C7. For every store contents, a query whose \<open>min_price\<close> is above its
  \<open>max_price\<close> returns the empty list with status 200, and so does a query for a set of
  breeds none of which occurs in the store. The page is one the contract allows (at
  least 1, or absent).
\<close>

theorem get_dogs_no_match:
  assumes "1 \<le> requested_page args"
  shows "(\<forall>lo hi. arg_min_price args = Some lo \<and> arg_max_price args = Some hi \<and> hi < lo
            \<longrightarrow> get_dogs (store_select rows) args = (DogsBody (requested_page args) [], 200))
       \<and> (arg_breed args \<noteq> [] \<and> (\<forall>b \<in> set (arg_breed args). \<forall>r \<in> set rows. sd_breed r \<noteq> Some b)
            \<longrightarrow> get_dogs (store_select rows) args = (DogsBody (requested_page args) [], 200))"
proof (intro conjI allI impI)
  fix lo hi
  assume b: "arg_min_price args = Some lo \<and> arg_max_price args = Some hi \<and> hi < lo"
  have "\<not> wanted args r" for r
    using b by (auto simp: wanted_def split: option.splits)
  then have "wanted_in_order args rows = []" by (simp add: wanted_in_order_def)
  then show "get_dogs (store_select rows) args = (DogsBody (requested_page args) [], 200)"
    by (simp add: get_dogs_store_select [OF assms])
next
  assume a: "arg_breed args \<noteq> [] \<and>
             (\<forall>b \<in> set (arg_breed args). \<forall>r \<in> set rows. sd_breed r \<noteq> Some b)"
  have "\<not> wanted args r" if "r \<in> set rows" for r
    using a that by (auto simp: wanted_def split: option.splits)
  then have "filter (wanted args) rows = []" by (simp add: filter_empty_conv)
  then have "wanted_in_order args rows = []" by (simp add: wanted_in_order_def)
  then show "get_dogs (store_select rows) args = (DogsBody (requested_page args) [], 200)"
    by (simp add: get_dogs_store_select [OF assms])
qed

theorem get_dogs_no_match_witness:
  "get_dogs
     (store_select
        [\<lparr>sd_id = 2, sd_name = Some ''Rex'', sd_image = None, sd_breed = Some ''Lab'',
          sd_price = Some 100\<rparr>,
         \<lparr>sd_id = 1, sd_name = Some ''Ace'', sd_image = None, sd_breed = None,
          sd_price = Some 10\<rparr>])
     \<lparr>arg_page = None, arg_breed = [], arg_min_price = Some 200, arg_max_price = Some 5\<rparr>
     = (DogsBody 1 [], 200)
   \<and> get_dogs
     (store_select
        [\<lparr>sd_id = 2, sd_name = Some ''Rex'', sd_image = None, sd_breed = Some ''Lab'',
          sd_price = Some 100\<rparr>,
         \<lparr>sd_id = 1, sd_name = Some ''Ace'', sd_image = None, sd_breed = None,
          sd_price = Some 10\<rparr>])
     \<lparr>arg_page = Some 1, arg_breed = [''Pug'', ''Husky''], arg_min_price = None,
      arg_max_price = None\<rparr>
     = (DogsBody 1 [], 200)"
proof -
  let ?rows = "[\<lparr>sd_id = 2, sd_name = Some ''Rex'', sd_image = None, sd_breed = Some ''Lab'',
                  sd_price = Some 100\<rparr>,
                \<lparr>sd_id = 1, sd_name = Some ''Ace'', sd_image = None, sd_breed = None,
                  sd_price = Some 10\<rparr>]"
  let ?a = "\<lparr>arg_page = None, arg_breed = [], arg_min_price = Some 200,
              arg_max_price = Some 5\<rparr>"
  let ?b = "\<lparr>arg_page = Some 1, arg_breed = [''Pug'', ''Husky''], arg_min_price = None,
              arg_max_price = None\<rparr>"
  have pa: "requested_page ?a = 1" and pb: "requested_page ?b = 1"
    by (simp_all add: requested_page_def)
  have "get_dogs (store_select ?rows) ?a = (DogsBody 1 [], 200)"
    using get_dogs_no_match [of ?a ?rows] by (simp add: pa)
  moreover have "get_dogs (store_select ?rows) ?b = (DogsBody 1 [], 200)"
    using get_dogs_no_match [of ?b ?rows] by (simp add: pb)
  ultimately show ?thesis by simp
qed


section \<open>Properties of the admin endpoints\<close>

text \<open>
  Claim C8. Admin login answers 200 with the configured access token exactly when the
  supplied username and password equal the configured ones; for any other pair it
  answers 403 with an error message and no token.
\<close>

theorem admin_login_credentials:
  "(admin_login environ data =
      Inr (LoginBody (environ_get environ ''ADMIN_TOKEN'' ''dummy_admin_token'')
                     ''Login successful'', 200)
    \<longleftrightarrow>
      (\<exists>d. data = PyDict d \<and>
        dict_get d ''username'' = PyStr (environ_get environ ''ADMIN_USERNAME'' ''admin'') \<and>
        dict_get d ''password'' = PyStr (environ_get environ ''ADMIN_PASSWORD'' ''password'')))
   \<and> (\<forall>d. data = PyDict d \<and>
          \<not> (dict_get d ''username'' = PyStr (environ_get environ ''ADMIN_USERNAME'' ''admin'') \<and>
             dict_get d ''password'' = PyStr (environ_get environ ''ADMIN_PASSWORD'' ''password''))
        \<longrightarrow> admin_login environ data = Inr (ErrorBody ''Invalid credentials'', 403))
   \<and> (\<forall>body status. admin_login environ data = Inr (body, status) \<longrightarrow>
          status = 200 \<and>
          body = LoginBody (environ_get environ ''ADMIN_TOKEN'' ''dummy_admin_token'')
                           ''Login successful''
        \<or> status = 403 \<and> body = ErrorBody ''Invalid credentials'')"
  by (cases data) (auto simp: admin_login_def Let_def)

theorem admin_login_credentials_witness:
  "admin_login [''ADMIN_USERNAME'' \<mapsto> ''root'', ''ADMIN_TOKEN'' \<mapsto> ''t0ken'']
     (PyDict [(''username'', PyStr ''root''), (''password'', PyStr ''password'')])
     = Inr (LoginBody ''t0ken'' ''Login successful'', 200)
   \<and> admin_login [''ADMIN_USERNAME'' \<mapsto> ''root'', ''ADMIN_TOKEN'' \<mapsto> ''t0ken'']
     (PyDict [(''username'', PyStr ''root''), (''password'', PyStr ''guess'')])
     = Inr (ErrorBody ''Invalid credentials'', 403)"
proof -
  let ?env = "[''ADMIN_USERNAME'' \<mapsto> ''root'', ''ADMIN_TOKEN'' \<mapsto> ''t0ken'']"
  note ev = environ_get_def dict_get_def dict_get_default_def
  have "admin_login ?env (PyDict [(''username'', PyStr ''root''), (''password'', PyStr ''password'')])
          = Inr (LoginBody ''t0ken'' ''Login successful'', 200)"
    using admin_login_credentials
      [of ?env "PyDict [(''username'', PyStr ''root''), (''password'', PyStr ''password'')]"]
    by (simp add: ev)
  moreover have "admin_login ?env (PyDict [(''username'', PyStr ''root''), (''password'', PyStr ''guess'')])
          = Inr (ErrorBody ''Invalid credentials'', 403)"
    using admin_login_credentials
      [of ?env "PyDict [(''username'', PyStr ''root''), (''password'', PyStr ''guess'')]"]
    by (simp add: ev)
  ultimately show ?thesis by simp
qed

subsection \<open>The store calls of \<open>admin_dogs\<close>\<close>

lemma admin_dogs_PUT:
  assumes "req_method req = PUT" and "req_is_json req" and "req_json req = Inr (PyDict items)"
  shows "admin_dogs execute req =
     (if \<not> truthy (dict_get items ''id'') then ([], (ErrorBody ''Missing dog id'', 400))
      else if filter (\<lambda>(k, v). k \<in> set update_fields) items = []
      then ([], (ErrorBody ''No valid fields to update'', 400))
      else
        ([Update (filter (\<lambda>(k, v). k \<in> set update_fields) items) (dict_get items ''id'')],
         (case execute (Update (filter (\<lambda>(k, v). k \<in> set update_fields) items)
                               (dict_get items ''id'')) of
            Inl e \<Rightarrow> (ErrorBody (str_of_error e), 500)
          | Inr data \<Rightarrow> (MessageBody ''Dog updated'' data, 200))))"
  using assms by (simp add: admin_dogs_def admin_put_def Let_def split: sum.splits)

lemma admin_dogs_POST:
  assumes "req_method req = POST" and "req_is_json req" and "req_json req = Inr (PyDict d)"
  shows "admin_dogs execute req =
     (if \<not> (truthy (dict_get d ''name'') \<and> truthy (dict_get d ''image'') \<and>
             truthy (dict_get d ''breed'') \<and> truthy (dict_get d ''price''))
      then ([], (ErrorBody ''Missing required fields'', 400))
      else
        ([Insert [(''name'', dict_get d ''name''), (''image'', dict_get d ''image''),
                  (''breed'', dict_get d ''breed''), (''price'', dict_get d ''price'')]],
         (case execute (Insert [(''name'', dict_get d ''name''), (''image'', dict_get d ''image''),
                  (''breed'', dict_get d ''breed''), (''price'', dict_get d ''price'')]) of
            Inl e \<Rightarrow> (ErrorBody (''Error adding dog: '' @ str_of_error e), 500)
          | Inr data \<Rightarrow> (MessageBody ''Dog added successfully'' data, 200))))"
  using assms
  by (simp add: admin_dogs_def admin_post_def add_dogs_def Let_def split: sum.splits)

lemma admin_delete_no_insert: "Insert r \<notin> set (fst (admin_delete execute req))"
  by (simp add: admin_delete_def split: sum.splits)

lemma admin_put_no_insert: "Insert r \<notin> set (fst (admin_put execute req))"
  by (simp add: admin_put_def Let_def split: sum.splits pyval.splits)

lemma admin_post_insert:
  assumes "Insert r \<in> set (fst (admin_post execute req))"
  shows "\<exists>name image' breed price.
           r = [(''name'', name), (''image'', image'), (''breed'', breed), (''price'', price)]
         \<and> truthy name \<and> truthy image' \<and> truthy breed \<and> truthy price"
  using assms
  by (auto simp: admin_post_def add_dogs_def Let_def split: sum.splits if_splits)

lemma admin_dogs_calls:
  "fst (admin_dogs execute req) =
     fst (case req_method req of
            DELETE \<Rightarrow> admin_delete execute req
          | POST \<Rightarrow> admin_post execute req
          | PUT \<Rightarrow> admin_put execute req)"
  by (simp add: admin_dogs_def split: prod.splits sum.splits)

text \<open>
  Claim C9. The partial update keeps exactly the payload entries whose key is one of
  \<open>name\<close>, \<open>image\<close>, \<open>breed\<close>, \<open>price\<close> (every other key, \<open>id\<close> included, is
  dropped), and it answers 400 without calling the store when the payload has no id or
  no entry with such a key.
\<close>

theorem admin_put_allow_list:
  assumes "req_method req = PUT" and "req_is_json req" and "req_json req = Inr (PyDict items)"
  shows "(map_of items ''id'' = None \<or>
          (\<forall>(k, v) \<in> set items. k \<notin> {''name'', ''image'', ''breed'', ''price''})
            \<longrightarrow> (\<exists>msg. admin_dogs execute req = ([], (ErrorBody msg, 400))))
       \<and> (map_of items ''id'' = None \<or> \<not> truthy (dict_get items ''id'')
            \<longrightarrow> admin_dogs execute req = ([], (ErrorBody ''Missing dog id'', 400)))
       \<and> (truthy (dict_get items ''id'') \<and>
          (\<forall>(k, v) \<in> set items. k \<notin> {''name'', ''image'', ''breed'', ''price''})
            \<longrightarrow> admin_dogs execute req = ([], (ErrorBody ''No valid fields to update'', 400)))
       \<and> (truthy (dict_get items ''id'') \<and>
          (\<exists>(k, v) \<in> set items. k \<in> {''name'', ''image'', ''breed'', ''price''})
            \<longrightarrow> (\<exists>update_data.
                   fst (admin_dogs execute req) = [Update update_data (dict_get items ''id'')]
                 \<and> update_data =
                     filter (\<lambda>(k, v). k \<in> {''name'', ''image'', ''breed'', ''price''}) items
                 \<and> (\<forall>k v. (k, v) \<in> set update_data \<longleftrightarrow>
                       (k, v) \<in> set items \<and> k \<in> {''name'', ''image'', ''breed'', ''price''})
                 \<and> ''id'' \<notin> fst ` set update_data))"
proof -
  let ?allowed = "{''name'', ''image'', ''breed'', ''price''}"
  let ?upd = "filter (\<lambda>(k, v). k \<in> ?allowed) items"
  have fields: "set update_fields = ?allowed" by (simp add: update_fields_def)
  have put: "admin_dogs execute req =
     (if \<not> truthy (dict_get items ''id'') then ([], (ErrorBody ''Missing dog id'', 400))
      else if ?upd = [] then ([], (ErrorBody ''No valid fields to update'', 400))
      else
        ([Update ?upd (dict_get items ''id'')],
         (case execute (Update ?upd (dict_get items ''id'')) of
            Inl e \<Rightarrow> (ErrorBody (str_of_error e), 500)
          | Inr data \<Rightarrow> (MessageBody ''Dog updated'' data, 200))))"
    using admin_dogs_PUT [OF assms, of execute] by (simp only: fields)
  have missing: "\<not> truthy (dict_get items ''id'')" if "map_of items ''id'' = None"
    using that by (simp add: dict_get_def dict_get_default_def)
  have empty: "?upd = [] \<longleftrightarrow> (\<forall>(k, v) \<in> set items. k \<notin> ?allowed)"
    by (auto simp: filter_empty_conv)
  have mem: "(k, v) \<in> set ?upd \<longleftrightarrow> (k, v) \<in> set items \<and> k \<in> ?allowed" for k v
    by auto
  have noid: "''id'' \<notin> fst ` set ?upd" by auto
  show ?thesis
  proof (intro conjI impI)
    assume "map_of items ''id'' = None \<or> (\<forall>(k, v) \<in> set items. k \<notin> ?allowed)"
    with missing empty have "\<not> truthy (dict_get items ''id'') \<or> ?upd = []" by auto
    then show "\<exists>msg. admin_dogs execute req = ([], (ErrorBody msg, 400))"
      by (auto simp: put)
  next
    assume "map_of items ''id'' = None \<or> \<not> truthy (dict_get items ''id'')"
    with missing have "\<not> truthy (dict_get items ''id'')" by auto
    then show "admin_dogs execute req = ([], (ErrorBody ''Missing dog id'', 400))"
      by (simp add: put)
  next
    assume "truthy (dict_get items ''id'') \<and> (\<forall>(k, v) \<in> set items. k \<notin> ?allowed)"
    with empty have "truthy (dict_get items ''id'')" and "?upd = []" by blast+
    then show "admin_dogs execute req = ([], (ErrorBody ''No valid fields to update'', 400))"
      by (simp add: put)
  next
    assume a: "truthy (dict_get items ''id'') \<and> (\<exists>(k, v) \<in> set items. k \<in> ?allowed)"
    with empty have t: "truthy (dict_get items ''id'')" and ne: "?upd \<noteq> []" by blast+
    have "fst (admin_dogs execute req) = [Update ?upd (dict_get items ''id'')]"
      using t ne by (simp add: put)
    with mem noid show "\<exists>update_data.
                   fst (admin_dogs execute req) = [Update update_data (dict_get items ''id'')]
                 \<and> update_data = ?upd
                 \<and> (\<forall>k v. (k, v) \<in> set update_data \<longleftrightarrow> (k, v) \<in> set items \<and> k \<in> ?allowed)
                 \<and> ''id'' \<notin> fst ` set update_data"
      by blast
  qed
qed

theorem admin_put_allow_list_witness:
  "admin_dogs (\<lambda>c. Inr [])
     \<lparr>req_method = PUT, req_is_json = True,
      req_json = Inr (PyDict [(''name'', PyStr ''Rex''), (''owner'', PyStr ''Bo'')]),
      req_args = []\<rparr>
     = ([], (ErrorBody ''Missing dog id'', 400))
   \<and> admin_dogs (\<lambda>c. Inr [])
     \<lparr>req_method = PUT, req_is_json = True,
      req_json = Inr (PyDict [(''id'', PyInt 7), (''owner'', PyStr ''Bo'')]),
      req_args = []\<rparr>
     = ([], (ErrorBody ''No valid fields to update'', 400))
   \<and> fst (admin_dogs (\<lambda>c. Inr [])
     \<lparr>req_method = PUT, req_is_json = True,
      req_json = Inr (PyDict [(''id'', PyInt 7), (''owner'', PyStr ''Bo''), (''price'', PyInt 5)]),
      req_args = []\<rparr>)
     = [Update [(''price'', PyInt 5)] (PyInt 7)]"
proof -
  note ev = dict_get_def dict_get_default_def
  let ?r1 = "\<lparr>req_method = PUT, req_is_json = True,
      req_json = Inr (PyDict [(''name'', PyStr ''Rex''), (''owner'', PyStr ''Bo'')]),
      req_args = []\<rparr>"
  let ?r2 = "\<lparr>req_method = PUT, req_is_json = True,
      req_json = Inr (PyDict [(''id'', PyInt 7), (''owner'', PyStr ''Bo'')]),
      req_args = []\<rparr>"
  let ?r3 = "\<lparr>req_method = PUT, req_is_json = True,
      req_json = Inr (PyDict [(''id'', PyInt 7), (''owner'', PyStr ''Bo''), (''price'', PyInt 5)]),
      req_args = []\<rparr>"
  have "admin_dogs (\<lambda>c. Inr []) ?r1 = ([], (ErrorBody ''Missing dog id'', 400))"
    using admin_put_allow_list
      [of ?r1 "[(''name'', PyStr ''Rex''), (''owner'', PyStr ''Bo'')]" "\<lambda>c. Inr []"]
    by (simp add: ev)
  moreover have "admin_dogs (\<lambda>c. Inr []) ?r2 = ([], (ErrorBody ''No valid fields to update'', 400))"
    using admin_put_allow_list
      [of ?r2 "[(''id'', PyInt 7), (''owner'', PyStr ''Bo'')]" "\<lambda>c. Inr []"]
    by (simp add: ev)
  moreover have "fst (admin_dogs (\<lambda>c. Inr []) ?r3) = [Update [(''price'', PyInt 5)] (PyInt 7)]"
    using admin_put_allow_list
      [of ?r3 "[(''id'', PyInt 7), (''owner'', PyStr ''Bo''), (''price'', PyInt 5)]" "\<lambda>c. Inr []"]
    by (simp add: ev)
  ultimately show ?thesis by blast
qed

text \<open>
  Claim C10. Creating a record answers 400 \<open>Missing required fields\<close>, and inserts
  nothing, whenever one of \<open>name\<close>, \<open>image\<close>, \<open>breed\<close>, \<open>price\<close> of the payload is falsy,
  also when it is present: a price of 0, an empty name. So no request to the endpoint
  inserts a record whose price is 0.
\<close>

theorem admin_post_falsy_rejected:
  "(req_method req = POST \<and> req_is_json req \<and> req_json req = Inr (PyDict d) \<and>
    \<not> (truthy (dict_get d ''name'') \<and> truthy (dict_get d ''image'') \<and>
       truthy (dict_get d ''breed'') \<and> truthy (dict_get d ''price''))
      \<longrightarrow> admin_dogs execute req = ([], (ErrorBody ''Missing required fields'', 400)))
   \<and> (req_method req = POST \<and> req_is_json req \<and> req_json req = Inr (PyDict d) \<and>
      (map_of d ''price'' = Some (PyInt 0) \<or> map_of d ''name'' = Some (PyStr []))
      \<longrightarrow> admin_dogs execute req = ([], (ErrorBody ''Missing required fields'', 400)))
   \<and> (\<forall>r. Insert r \<in> set (fst (admin_dogs execute req)) \<longrightarrow>
          (\<exists>name image' breed price.
              r = [(''name'', name), (''image'', image'), (''breed'', breed), (''price'', price)]
            \<and> truthy name \<and> truthy image' \<and> truthy breed \<and> truthy price
            \<and> price \<noteq> PyInt 0 \<and> name \<noteq> PyStr []))"
proof (intro conjI allI impI)
  assume a: "req_method req = POST \<and> req_is_json req \<and> req_json req = Inr (PyDict d) \<and>
    \<not> (truthy (dict_get d ''name'') \<and> truthy (dict_get d ''image'') \<and>
       truthy (dict_get d ''breed'') \<and> truthy (dict_get d ''price''))"
  then have m: "req_method req = POST" and j: "req_is_json req"
    and p: "req_json req = Inr (PyDict d)" by blast+
  from a have "\<not> (truthy (dict_get d ''name'') \<and> truthy (dict_get d ''image'') \<and>
       truthy (dict_get d ''breed'') \<and> truthy (dict_get d ''price''))" by blast
  then show "admin_dogs execute req = ([], (ErrorBody ''Missing required fields'', 400))"
    by (simp add: admin_dogs_POST [OF m j p])
next
  assume a: "req_method req = POST \<and> req_is_json req \<and> req_json req = Inr (PyDict d) \<and>
      (map_of d ''price'' = Some (PyInt 0) \<or> map_of d ''name'' = Some (PyStr []))"
  then have m: "req_method req = POST" and j: "req_is_json req"
    and p: "req_json req = Inr (PyDict d)" by blast+
  from a have "\<not> truthy (dict_get d ''price'') \<or> \<not> truthy (dict_get d ''name'')"
    by (auto simp: dict_get_def dict_get_default_def)
  then have "\<not> (truthy (dict_get d ''name'') \<and> truthy (dict_get d ''image'') \<and>
       truthy (dict_get d ''breed'') \<and> truthy (dict_get d ''price''))" by blast
  then show "admin_dogs execute req = ([], (ErrorBody ''Missing required fields'', 400))"
    by (simp add: admin_dogs_POST [OF m j p])
next
  fix r assume "Insert r \<in> set (fst (admin_dogs execute req))"
  then have "Insert r \<in> set (fst (admin_post execute req))"
    unfolding admin_dogs_calls
    by (cases "req_method req") (simp_all add: admin_delete_no_insert admin_put_no_insert)
  from admin_post_insert [OF this]
  obtain name image' breed price where
    r: "r = [(''name'', name), (''image'', image'), (''breed'', breed), (''price'', price)]"
    and t: "truthy name" "truthy image'" "truthy breed" "truthy price"
    by blast
  from t have "price \<noteq> PyInt 0" and "name \<noteq> PyStr []" by auto
  with r t show "\<exists>name image' breed price.
              r = [(''name'', name), (''image'', image'), (''breed'', breed), (''price'', price)]
            \<and> truthy name \<and> truthy image' \<and> truthy breed \<and> truthy price
            \<and> price \<noteq> PyInt 0 \<and> name \<noteq> PyStr []"
    by blast
qed

theorem admin_post_falsy_rejected_witness:
  "admin_dogs (\<lambda>c. Inr [])
     \<lparr>req_method = POST, req_is_json = True,
      req_json = Inr (PyDict [(''name'', PyStr ''Rex''), (''image'', PyStr ''r.png''),
                              (''breed'', PyStr ''Lab''), (''price'', PyInt 0)]),
      req_args = []\<rparr>
     = ([], (ErrorBody ''Missing required fields'', 400))
   \<and> Insert [(''name'', PyStr ''Rex''), (''image'', PyStr ''r.png''),
             (''breed'', PyStr ''Lab''), (''price'', PyInt 5)]
       \<in> set (fst (admin_dogs (\<lambda>c. Inr [])
            \<lparr>req_method = POST, req_is_json = True,
             req_json = Inr (PyDict [(''name'', PyStr ''Rex''), (''image'', PyStr ''r.png''),
                                     (''breed'', PyStr ''Lab''), (''price'', PyInt 5)]),
             req_args = []\<rparr>))"
proof -
  let ?d0 = "[(''name'', PyStr ''Rex''), (''image'', PyStr ''r.png''),
              (''breed'', PyStr ''Lab''), (''price'', PyInt 0)]"
  let ?r0 = "\<lparr>req_method = POST, req_is_json = True, req_json = Inr (PyDict ?d0),
               req_args = []\<rparr>"
  have "admin_dogs (\<lambda>c. Inr []) ?r0 = ([], (ErrorBody ''Missing required fields'', 400))"
    using admin_post_falsy_rejected [of ?r0 ?d0 "\<lambda>c. Inr []"]
    by (simp add: dict_get_def dict_get_default_def)
  moreover have "Insert [(''name'', PyStr ''Rex''), (''image'', PyStr ''r.png''),
             (''breed'', PyStr ''Lab''), (''price'', PyInt 5)]
       \<in> set (fst (admin_dogs (\<lambda>c. Inr [])
            \<lparr>req_method = POST, req_is_json = True,
             req_json = Inr (PyDict [(''name'', PyStr ''Rex''), (''image'', PyStr ''r.png''),
                                     (''breed'', PyStr ''Lab''), (''price'', PyInt 5)]),
             req_args = []\<rparr>))"
    by (simp add: admin_dogs_def admin_post_def add_dogs_def dict_get_def dict_get_default_def)
  ultimately show ?thesis by blast
qed


end
